theory Spec2Isabelle
  imports Complex_Main "HOL-Library.AList"
begin

section \<open>Data model of \<open>automl_utils/dataloader/spec.py\<close>\<close>

text \<open>
  The two enumerations. \<open>for p in Phase\<close> and \<open>for s in Split\<close> visit the members in
  the order of their definition, which the two member lists record.
\<close>

datatype Phase = SEARCH | EVAL

datatype Split = TRAIN | VAL

definition Phase_members :: "Phase list" where
  "Phase_members = [SEARCH, EVAL]"

definition Split_members :: "Split list" where
  "Split_members = [TRAIN, VAL]"

text \<open>
  A Python \<open>float\<close>, as far as ordering is concerned: a finite value (every finite double
  is a real number and the comparison of a float with an \<open>int\<close> is exact), the two
  infinities, and NaN, which compares false with everything.
\<close>

datatype pyfloat = Finite real | PosInf | NegInf | NaN

fun float_lt_int :: "pyfloat \<Rightarrow> int \<Rightarrow> bool" where
  "float_lt_int (Finite r) i = (r < of_int i)"
| "float_lt_int PosInf i = False"
| "float_lt_int NegInf i = True"
| "float_lt_int NaN i = False"

fun float_gt_int :: "pyfloat \<Rightarrow> int \<Rightarrow> bool" where
  "float_gt_int (Finite r) i = (of_int i < r)"
| "float_gt_int PosInf i = True"
| "float_gt_int NegInf i = False"
| "float_gt_int NaN i = False"

fun float_eq_int :: "pyfloat \<Rightarrow> int \<Rightarrow> bool" where
  "float_eq_int (Finite r) i = (r = of_int i)"
| "float_eq_int PosInf i = False"
| "float_eq_int NegInf i = False"
| "float_eq_int NaN i = False"

text \<open>
  The values a caller can put into the keyword options of \<open>get_dataloader\<close>, and Python's
  \<open>!=\<close> between such a value and an \<open>int\<close>: numbers compare by value across \<open>bool\<close>,
  \<open>int\<close> and \<open>float\<close>; \<open>None\<close> and strings differ from every \<open>int\<close>.
\<close>

datatype pyval = PyNone | PyBool bool | PyInt int | PyFloat pyfloat | PyStr string

fun py_eq_int :: "pyval \<Rightarrow> int \<Rightarrow> bool" where
  "py_eq_int PyNone i = False"
| "py_eq_int (PyBool b) i = ((if b then 1 else 0) = i)"
| "py_eq_int (PyInt j) i = (j = i)"
| "py_eq_int (PyFloat x) i = float_eq_int x i"
| "py_eq_int (PyStr s) i = False"

definition py_ne_int :: "pyval \<Rightarrow> int \<Rightarrow> bool" where
  "py_ne_int v i = (\<not> py_eq_int v i)"

text \<open>
  Every \<open>raise\<close> of the module is a value. The three \<open>ValueError\<close>s carry the values their
  messages print:
  \<^item> \<open>BatchSizeNotPositive b\<close>: "`batch_size` must be > 0. Received value of b."
  \<^item> \<open>SearchSplitOutOfRange x\<close>: "`search_split` must be between 0 and 1 inclusive,
    received x"
  \<^item> \<open>BatchSizeConflict v b\<close>: "`batch_size` specified in kwargs (v) does not match
    `BatchConfig.batch_size` (b)."

  \<open>KeyError\<close> is what the subscript \<open>self._config_map[(phase, split)]\<close> raises on a
  missing key, and \<open>Raised\<close> stands for any exception coming out of subclass or library
  code (\<open>NotImplementedError\<close> among them).
\<close>

datatype error =
    BatchSizeNotPositive int
  | SearchSplitOutOfRange pyfloat
  | BatchSizeConflict pyval int
  | KeyError Phase Split
  | Raised string

subsection \<open>BatchConfig\<close>

text \<open>The dataclass; \<open>'f\<close> is the type of the transform callables.\<close>

record 'f BatchConfig =
  batch_size :: int
  input_transform :: "'f option"
  target_transform :: "'f option"

definition BatchConfig_post_init :: "'f BatchConfig \<Rightarrow> error + unit" where
  "BatchConfig_post_init self =
     (if batch_size self \<le> 0 then Inl (BatchSizeNotPositive (batch_size self))
      else Inr ())"

text \<open>
  Construction: the generated \<open>__init__\<close> stores the three fields and then runs
  \<open>__post_init__\<close>.
\<close>

definition BatchConfig_new :: "int \<Rightarrow> 'f option \<Rightarrow> 'f option \<Rightarrow> error + 'f BatchConfig" where
  "BatchConfig_new b it tt =
     (let self = \<lparr>batch_size = b, input_transform = it, target_transform = tt\<rparr> in
      case BatchConfig_post_init self of
        Inl e \<Rightarrow> Inl e
      | Inr _ \<Rightarrow> Inr self)"

subsection \<open>Datasets, keyword dictionaries and the external collaborators\<close>

text \<open>
  A dataset object of the external library. \<open>ds_len\<close> is what \<open>__len__\<close> returns, and
  \<open>None\<close> when the dataset's class defines no \<open>__len__\<close> (the library's base class
  defines none). The truth value Python gives \<open>dset\<close> in \<open>if not dset\<close> is: false for
  \<open>None\<close>, \<open>len(dset) != 0\<close> for an object with a length, true for any other object.
\<close>

datatype dataset = Dataset (ds_id: nat) (ds_len: "nat option")

fun truthy :: "dataset option \<Rightarrow> bool" where
  "truthy None = False"
| "truthy (Some d) = (case ds_len d of None \<Rightarrow> True | Some n \<Rightarrow> n \<noteq> 0)"

text \<open>
  A dictionary with string keys (\<open>**kwargs\<close>, \<open>ds_args\<close>) is an association list in
  insertion order; a Python dictionary never holds a key twice, so its list has distinct
  keys. \<open>{**base, **extra}\<close> inserts the items of \<open>extra\<close> one after the other: a key already
  there keeps its place and takes the new value, a new key goes to the end.
\<close>

type_synonym 'v kwdict = "(string \<times> 'v) list"

definition dict_merge :: "'v kwdict \<Rightarrow> 'v kwdict \<Rightarrow> 'v kwdict" where
  "dict_merge base extra = foldl (\<lambda>acc (k, v). AList.update k v acc) base extra"

text \<open>\<open>kwargs or {}\<close>: an empty dictionary is falsy.\<close>

definition or_empty_kwdict :: "'v kwdict \<Rightarrow> 'v kwdict" where
  "or_empty_kwdict kwargs = (if kwargs \<noteq> [] then kwargs else [])"

text \<open>
  The arguments of one call of \<open>load_dataset\<close>: five positional ones, \<open>download\<close> by
  keyword, and the keyword dictionary \<open>ds_args\<close> that is spread into the call.
\<close>

record 'f load_dataset_call =
  call_phase :: Phase
  call_split :: Split
  call_path :: string
  call_input_transform :: "'f option"
  call_target_transform :: "'f option"
  call_download :: bool
  call_ds_args :: "pyfloat kwdict"

text \<open>
  The three abstract operations a concrete subclass supplies. Each may raise. They are
  functions of their arguments only: the two defaults are static methods, and
  \<open>load_dataset\<close> is taken by its contract, the production of a dataset.
\<close>

record 'f subclass_impl =
  load_dataset :: "'f load_dataset_call \<Rightarrow> error + dataset option"
  get_default_config :: "Phase \<Rightarrow> Split \<Rightarrow> error + 'f BatchConfig"
  get_default_search_split :: "error + pyfloat"

subsection \<open>DataloaderSpec\<close>

text \<open>The instance attributes \<open>_search_split\<close> and \<open>_config_map\<close>.\<close>

record 'f DataloaderSpec =
  priv_search_split :: pyfloat
  priv_config_map :: "Phase \<times> Split \<rightharpoonup> 'f BatchConfig"

text \<open>
  \<open>config_map or {}\<close>: \<open>None\<close> and an empty mapping are falsy. A mapping keyed by
  (Phase, Split) pairs is empty when none of the four pairs is a key.
\<close>

definition mapping_truthy :: "(Phase \<times> Split \<rightharpoonup> 'a) \<Rightarrow> bool" where
  "mapping_truthy m =
     (\<exists>p \<in> set Phase_members. \<exists>s \<in> set Split_members. m (p, s) \<noteq> None)"

definition or_empty_config_map ::
  "(Phase \<times> Split \<rightharpoonup> 'a) option \<Rightarrow> (Phase \<times> Split \<rightharpoonup> 'a)" where
  "or_empty_config_map config_map =
     (case config_map of
        None \<Rightarrow> Map.empty
      | Some m \<Rightarrow> if mapping_truthy m then m else Map.empty)"

text \<open>
  Lines 77 to 81 of the source: resolution of \<open>search_split\<close>. The default of the
  subclass is stored as it comes; only a supplied value is range-checked.
\<close>

definition resolve_search_split :: "'f subclass_impl \<Rightarrow> pyfloat option \<Rightarrow> error + pyfloat" where
  "resolve_search_split cls search_split =
     (case search_split of
        None \<Rightarrow> get_default_search_split cls
      | Some x \<Rightarrow>
          if float_lt_int x 0 \<or> float_gt_int x 1 then Inl (SearchSplitOutOfRange x)
          else Inr x)"

text \<open>
  Lines 85 to 90: the two nested loops that fill \<open>self._config_map\<close>; the accumulator
  is the dictionary built so far. An exception of \<open>get_default_config\<close> ends the loops.
\<close>

fun fill_splits ::
  "'f subclass_impl \<Rightarrow> (Phase \<times> Split \<rightharpoonup> 'f BatchConfig) \<Rightarrow> Phase \<Rightarrow> Split list \<Rightarrow>
   (Phase \<times> Split \<rightharpoonup> 'f BatchConfig) \<Rightarrow> error + (Phase \<times> Split \<rightharpoonup> 'f BatchConfig)" where
  "fill_splits cls config_map p [] acc = Inr acc"
| "fill_splits cls config_map p (s # ss) acc =
     (case config_map (p, s) of
        Some c \<Rightarrow> fill_splits cls config_map p ss (acc((p, s) \<mapsto> c))
      | None \<Rightarrow>
          (case get_default_config cls p s of
             Inl e \<Rightarrow> Inl e
           | Inr c \<Rightarrow> fill_splits cls config_map p ss (acc((p, s) \<mapsto> c))))"

fun fill_phases ::
  "'f subclass_impl \<Rightarrow> (Phase \<times> Split \<rightharpoonup> 'f BatchConfig) \<Rightarrow> Phase list \<Rightarrow>
   (Phase \<times> Split \<rightharpoonup> 'f BatchConfig) \<Rightarrow> error + (Phase \<times> Split \<rightharpoonup> 'f BatchConfig)" where
  "fill_phases cls config_map [] acc = Inr acc"
| "fill_phases cls config_map (p # ps) acc =
     (case fill_splits cls config_map p Split_members acc of
        Inl e \<Rightarrow> Inl e
      | Inr acc' \<Rightarrow> fill_phases cls config_map ps acc')"

text \<open>\<open>DataloaderSpec.__init__\<close>: the new instance, or the exception raised.\<close>

definition DataloaderSpec_init ::
  "'f subclass_impl \<Rightarrow> pyfloat option \<Rightarrow> (Phase \<times> Split \<rightharpoonup> 'f BatchConfig) option \<Rightarrow>
   error + 'f DataloaderSpec" where
  "DataloaderSpec_init cls search_split config_map =
     (case resolve_search_split cls search_split of
        Inl e \<Rightarrow> Inl e
      | Inr x \<Rightarrow>
          (case fill_phases cls (or_empty_config_map config_map) Phase_members Map.empty of
             Inl e \<Rightarrow> Inl e
           | Inr m \<Rightarrow> Inr \<lparr>priv_search_split = x, priv_config_map = m\<rparr>))"

text \<open>\<open>get_config\<close>: the subscript raises \<open>KeyError\<close> on a key that is not stored.\<close>

definition get_config :: "'f DataloaderSpec \<Rightarrow> Phase \<Rightarrow> Split \<Rightarrow> error + 'f BatchConfig" where
  "get_config self phase split =
     (case priv_config_map self (phase, split) of
        None \<Rightarrow> Inl (KeyError phase split)
      | Some c \<Rightarrow> Inr c)"

text \<open>The property \<open>search_split\<close>.\<close>

definition search_split :: "'f DataloaderSpec \<Rightarrow> pyfloat" where
  "search_split self = priv_search_split self"

text \<open>
  Line 182: the condition \<open>"batch_size" in kwargs and kwargs["batch_size"] != config.batch_size\<close>.
  The result is the conflicting value \<open>kwargs["batch_size"]\<close> when the condition holds.
\<close>

definition batch_size_conflict :: "pyval kwdict \<Rightarrow> 'f BatchConfig \<Rightarrow> pyval option" where
  "batch_size_conflict kwargs config =
     (case map_of kwargs ''batch_size'' of
        None \<Rightarrow> None
      | Some v \<Rightarrow> if py_ne_int v (batch_size config) then Some v else None)"

text \<open>
  Lines 175 to 178: the arguments \<open>get_dataloader\<close> hands to \<open>load_dataset\<close>. \<open>ds_args\<close>
  holds \<open>search_split\<close> in the search phase and is empty otherwise, so that in the
  evaluation phase the call has no \<open>search_split\<close> keyword.
\<close>

definition dataset_call ::
  "'f DataloaderSpec \<Rightarrow> 'f BatchConfig \<Rightarrow> Phase \<Rightarrow> Split \<Rightarrow> string \<Rightarrow> bool \<Rightarrow>
   'f load_dataset_call" where
  "dataset_call self config phase split path download =
     (let ds_args = (if phase = SEARCH then [(''search_split'', search_split self)] else [])
      in \<lparr>call_phase = phase, call_split = split, call_path = path,
          call_input_transform = input_transform config,
          call_target_transform = target_transform config,
          call_download = download, call_ds_args = ds_args\<rparr>)"

text \<open>
  \<open>get_dataloader\<close>. Its result is the list of calls it made to the subclass and to the
  external library, in order, together with what it returned or raised. \<open>DataLoader\<close> is
  the library's constructor, of which nothing is assumed.
\<close>

datatype 'f event =
    CallLoadDataset "'f load_dataset_call"
  | CallDataLoader dataset "pyval kwdict"

definition get_dataloader ::
  "(dataset \<Rightarrow> pyval kwdict \<Rightarrow> error + 'l) \<Rightarrow> 'f subclass_impl \<Rightarrow> 'f DataloaderSpec \<Rightarrow>
   Phase \<Rightarrow> Split \<Rightarrow> string \<Rightarrow> bool \<Rightarrow> pyval kwdict \<Rightarrow>
   'f event list \<times> (error + 'l option)" where
  "get_dataloader DataLoader cls self phase split path download kwargs =
     (case get_config self phase split of
        Inl e \<Rightarrow> ([], Inl e)
      | Inr config \<Rightarrow>
          let call = dataset_call self config phase split path download in
          (case load_dataset cls call of
             Inl e \<Rightarrow> ([CallLoadDataset call], Inl e)
           | Inr dset \<Rightarrow>
               if \<not> truthy dset then ([CallLoadDataset call], Inr None)
               else
                 (case batch_size_conflict kwargs config of
                    Some v \<Rightarrow>
                      ([CallLoadDataset call], Inl (BatchSizeConflict v (batch_size config)))
                  | None \<Rightarrow>
                      let kwargs' = dict_merge [(''batch_size'', PyInt (batch_size config))]
                                      (or_empty_kwdict kwargs)
                      in
                      (case dset of
                         None \<Rightarrow> ([CallLoadDataset call], Inr None)
                       | Some d \<Rightarrow>
                           (case DataLoader d kwargs' of
                              Inl e \<Rightarrow>
                                ([CallLoadDataset call, CallDataLoader d kwargs'], Inl e)
                            | Inr loader \<Rightarrow>
                                ([CallLoadDataset call, CallDataLoader d kwargs'],
                                 Inr (Some loader)))))))"

subsection \<open>Calls in sequence\<close>

text \<open>
  The three public read operations as calls on an instance. A call yields what the method
  returned or raised and the instance as the method body leaves it. None of the three
  bodies assigns to an attribute of \<open>self\<close> or writes to \<open>self._config_map\<close>; the
  rebinding of \<open>kwargs\<close> in \<open>get_dataloader\<close> builds a new dictionary.
\<close>

datatype op =
    OpGetConfig Phase Split
  | OpSearchSplit
  | OpGetDataloader Phase Split string bool "pyval kwdict"

datatype ('f, 'l) outcome =
    GotConfig "error + 'f BatchConfig"
  | GotSearchSplit pyfloat
  | GotDataloader "'f event list \<times> (error + 'l option)"

fun call_op ::
  "(dataset \<Rightarrow> pyval kwdict \<Rightarrow> error + 'l) \<Rightarrow> 'f subclass_impl \<Rightarrow> 'f DataloaderSpec \<Rightarrow> op \<Rightarrow>
   ('f, 'l) outcome \<times> 'f DataloaderSpec" where
  "call_op DataLoader cls self (OpGetConfig phase split) =
     (GotConfig (get_config self phase split), self)"
| "call_op DataLoader cls self OpSearchSplit =
     (GotSearchSplit (search_split self), self)"
| "call_op DataLoader cls self (OpGetDataloader phase split path download kwargs) =
     (GotDataloader (get_dataloader DataLoader cls self phase split path download kwargs), self)"

fun run_ops ::
  "(dataset \<Rightarrow> pyval kwdict \<Rightarrow> error + 'l) \<Rightarrow> 'f subclass_impl \<Rightarrow> 'f DataloaderSpec \<Rightarrow> op list \<Rightarrow>
   ('f, 'l) outcome list \<times> 'f DataloaderSpec" where
  "run_ops DataLoader cls self [] = ([], self)"
| "run_ops DataLoader cls self (c # cs) =
     (case call_op DataLoader cls self c of
        (r, self') \<Rightarrow>
          (case run_ops DataLoader cls self' cs of (rs, self'') \<Rightarrow> (r # rs, self'')))"

subsection \<open>Notions of the specification\<close>

text \<open>A value that lies in the interval [0, 1], bounds included.\<close>

fun in_unit_interval :: "pyfloat \<Rightarrow> bool" where
  "in_unit_interval (Finite r) = (0 \<le> r \<and> r \<le> 1)"
| "in_unit_interval PosInf = False"
| "in_unit_interval NegInf = False"
| "in_unit_interval NaN = False"

text \<open>
  The subclass returns a default for every pair that the override leaves open: the
  condition under which the loops of \<open>__init__\<close> run to their end.
\<close>

definition defaults_available ::
  "'f subclass_impl \<Rightarrow> (Phase \<times> Split \<rightharpoonup> 'f BatchConfig) option \<Rightarrow> bool" where
  "defaults_available cls config_map =
     (\<forall>p \<in> set Phase_members. \<forall>s \<in> set Split_members.
        or_empty_config_map config_map (p, s) = None \<longrightarrow> \<not> isl (get_default_config cls p s))"

text \<open>A keyword dictionary holds no key twice.\<close>

definition is_dict :: "'v kwdict \<Rightarrow> bool" where
  "is_dict kwargs = distinct (map fst kwargs)"

subsection \<open>A reference implementation for the examples\<close>

text \<open>
  A subclass whose \<open>load_dataset\<close> returns a given result, with batch size 64 in the
  search phase and 32 in the evaluation phase and the search split 0.8; and a dataloader
  constructor that keeps its arguments.
\<close>

definition example_impl :: "(error + dataset option) \<Rightarrow> nat subclass_impl" where
  "example_impl loaded =
     \<lparr>load_dataset = (\<lambda>call. loaded),
      get_default_config = (\<lambda>p s. BatchConfig_new (if p = SEARCH then 64 else 32) None None),
      get_default_search_split = Inr (Finite (4 / 5))\<rparr>"

definition example_DataLoader :: "dataset \<Rightarrow> pyval kwdict \<Rightarrow> error + dataset \<times> pyval kwdict" where
  "example_DataLoader d kwargs = Inr (d, kwargs)"

definition example_spec :: "nat DataloaderSpec" where
  "example_spec =
     \<lparr>priv_search_split = Finite (4 / 5),
      priv_config_map =
        [(SEARCH, TRAIN) \<mapsto> \<lparr>batch_size = 64, input_transform = None, target_transform = None\<rparr>,
         (SEARCH, VAL) \<mapsto> \<lparr>batch_size = 64, input_transform = None, target_transform = None\<rparr>,
         (EVAL, TRAIN) \<mapsto> \<lparr>batch_size = 32, input_transform = None, target_transform = None\<rparr>,
         (EVAL, VAL) \<mapsto> \<lparr>batch_size = 32, input_transform = None, target_transform = None\<rparr>]\<rparr>"

section \<open>BatchConfig validation\<close>

text \<open>
  C5. For every integer \<open>batch_size\<close>, constructing a BatchConfig fails exactly when
  \<open>batch_size \<le> 0\<close>, and then with the validation error that names the offending value;
  for \<open>batch_size > 0\<close> construction succeeds and the stored \<open>batch_size\<close> is the
  supplied value (and the two transforms are stored as given).
\<close>

theorem BatchConfig_new_validates:
  "((\<exists>e. BatchConfig_new b it tt = Inl e) \<longleftrightarrow> b \<le> 0) \<and>
   (b \<le> 0 \<longrightarrow> BatchConfig_new b it tt = Inl (BatchSizeNotPositive b)) \<and>
   (0 < b \<longrightarrow> (\<exists>c. BatchConfig_new b it tt = Inr c \<and> batch_size c = b \<and>
        input_transform c = it \<and> target_transform c = tt))"
  by (auto simp: BatchConfig_new_def BatchConfig_post_init_def Let_def)

theorem BatchConfig_new_validates_witness:
  "BatchConfig_new 0 (None :: nat option) None = Inl (BatchSizeNotPositive 0) \<and>
   BatchConfig_new (- 3) (Some (1::nat)) None = Inl (BatchSizeNotPositive (- 3)) \<and>
   (\<exists>c. BatchConfig_new 32 (Some (1::nat)) (Some 2) = Inr c \<and> batch_size c = 32 \<and>
        input_transform c = Some 1 \<and> target_transform c = Some 2)"
  using BatchConfig_new_validates [of 0 "None :: nat option" None]
    BatchConfig_new_validates [of "- 3" "Some (1::nat)" None]
    BatchConfig_new_validates [of 32 "Some (1::nat)" "Some 2"]
  by simp

end
